theory Spec2Isabelle
  imports Complex_Main "HOL-Library.Sublist"
begin

section \<open>The portfolio page's behaviour layer (js/modern-multipage.js)\<close>

text \<open>
  The script is one class, \<^verbatim>\<open>ModernPortfolio\<close>, instantiated once when the document is
  ready. Its methods read and mutate the document, the browser's \<^verbatim>\<open>localStorage\<close> and the
  instance's own fields. The embedding threads one record, \<open>page\<close>, through every method:
  the instance's fields, the parts of the document the methods touch, and what they
  register with the browser (event listeners, observers, timers).

  A JavaScript exception is a value: a method that can throw returns an \<open>outcome\<close>,
  \<open>Done s\<close> when it returns and \<open>Threw e s\<close> when it throws \<open>e\<close>, with \<open>s\<close> the state at
  that moment (JavaScript undoes nothing when an exception unwinds).
\<close>

subsection \<open>Exceptions\<close>

datatype js_error = SecurityError | QuotaExceededError | TypeError

datatype 'a outcome = Done 'a | Threw js_error 'a

text \<open>Sequencing of two statements: the second runs only when the first returned.\<close>

definition andThen :: "'a outcome \<Rightarrow> ('a \<Rightarrow> 'a outcome) \<Rightarrow> 'a outcome" where
  "andThen r f = (case r of Done s \<Rightarrow> f s | Threw e s \<Rightarrow> Threw e s)"

fun completed :: "'a outcome \<Rightarrow> bool" where
  "completed (Done s) = True"
| "completed (Threw e s) = False"

fun state_of :: "'a outcome \<Rightarrow> 'a" where
  "state_of (Done s) = s"
| "state_of (Threw e s) = s"

subsection \<open>localStorage\<close>

text \<open>
  \<^verbatim>\<open>localStorage\<close> is a string-to-string dictionary. A browser that denies access to it
  (blocked site data, a sandboxed frame) throws \<^verbatim>\<open>SecurityError\<close> on every access; a full
  or zero-quota store throws \<^verbatim>\<open>QuotaExceededError\<close> on \<^verbatim>\<open>setItem\<close>. \<^verbatim>\<open>getItem\<close> of a missing
  key is \<^verbatim>\<open>null\<close>, here \<open>None\<close>.
\<close>

record storage =
  denied :: bool
  full :: bool
  items :: "string \<rightharpoonup> string"

definition getItem :: "string \<Rightarrow> storage \<Rightarrow> js_error + string option" where
  "getItem k st = (if denied st then Inl SecurityError else Inr (items st k))"

definition setItem :: "string \<Rightarrow> string \<Rightarrow> storage \<Rightarrow> js_error + storage" where
  "setItem k v st =
     (if denied st then Inl SecurityError
      else if full st then Inl QuotaExceededError
      else Inr (st\<lparr>items := (items st)(k \<mapsto> v)\<rparr>))"

text \<open>\<^verbatim>\<open>x || d\<close> on a string-or-null: \<^verbatim>\<open>null\<close> and the empty string are falsy.\<close>

definition orDefault :: "string option \<Rightarrow> string \<Rightarrow> string" where
  "orDefault v d = (case v of None \<Rightarrow> d | Some x \<Rightarrow> if x = [] then d else x)"

subsection \<open>classList\<close>

text \<open>A \<^verbatim>\<open>classList\<close> is an ordered set of tokens: adding a present token changes nothing.\<close>

definition classAdd :: "string \<Rightarrow> string list \<Rightarrow> string list" where
  "classAdd c cs = (if c \<in> set cs then cs else cs @ [c])"

definition classRemove :: "string \<Rightarrow> string list \<Rightarrow> string list" where
  "classRemove c cs = removeAll c cs"

subsection \<open>The page\<close>

text \<open>
  The theme-toggle button and its two icon children. \<open>None\<close> for an icon means
  \<^verbatim>\<open>toggleBtn.querySelector\<close> returns \<^verbatim>\<open>null\<close>; \<open>Some v\<close> is the icon's \<^verbatim>\<open>style.opacity\<close>. The two
  selectors are taken to match different elements.
\<close>

record toggle_button =
  light_icon :: "string option"
  dark_icon :: "string option"

record nav_link =
  href :: "string option"
  data_page :: "string option"
  link_classes :: "string list"

text \<open>
  In the page below, \<open>None\<close> for an element means that the document does not have it, and
  the fields \<open>n_...\<close> count the elements that match a selector of the script (the selectors
  overlap in a real document; the model does not relate the counts).

  What the script registers with the browser. A listener is named after the event and the
  closure the source passes to \<^verbatim>\<open>addEventListener\<close>; the number is the index of the element
  in its \<^verbatim>\<open>querySelectorAll\<close> result, the integer of \<open>Load_hideLoading\<close> the captured
  \<^verbatim>\<open>startTime\<close>.
\<close>

datatype listener =
    Load_hideLoading int
  | Scroll_updateNavbar
  | Click_themeToggle
  | Click_smoothScroll nat
  | Scroll_progress
  | Scroll_backToTop
  | Click_backToTop
  | Keydown_backToTop
  | Click_ripple nat
  | Mousemove_tilt nat
  | Mouseleave_tilt nat
  | Mouseenter_glow nat
  | Mouseleave_glow nat
  | Mouseenter_tooltip nat
  | Mouseleave_tooltip nat
  | Focus_field nat
  | Blur_field nat
  | Input_validate nat
  | Keydown_keyboardNav
  | Mousedown_keyboardNav
  | Load_monitor
  | Visibilitychange_pause
  | Focus_skipLink
  | Blur_skipLink
  | Keydown_focusTrap
  | Scroll_scrollToTop
  | Click_scrollToTop
  | Click_pageTransition nat

datatype observation = Animated nat | Counter nat | LazyImage nat

text \<open>
  The callbacks passed to \<^verbatim>\<open>setTimeout\<close>: the forced repaint of \<^verbatim>\<open>setTheme\<close>, the reset of
  the transition that a toggle starts, the two steps of the loading sequence, the entrance
  of a quick card, and the removal of the page-load announcement. What each does when it
  runs is \<open>runTask\<close> below.
\<close>

datatype timer_task =
    ForceRepaint
  | TransitionReset
  | HideLoading
  | FinishLoading
  | EntranceCard nat
  | RemoveAnnouncement

record page =
  \<comment> \<open>the instance: \<^verbatim>\<open>this.theme\<close>, \<^verbatim>\<open>this.currentPage\<close>, \<^verbatim>\<open>this.loadingComplete\<close>\<close>
  theme :: string
  currentPage :: string
  loadingComplete :: bool
  \<comment> \<open>the browser: storage, \<^verbatim>\<open>Date.now()\<close>, \<^verbatim>\<open>location.pathname\<close>, optional globals\<close>
  local_storage :: storage
  now :: int
  pathname :: string
  aos_defined :: bool
  aos_initialised :: bool
  performance_defined :: bool
  hardwareConcurrency :: "nat option"
  deviceMemory :: "rat option"
  \<comment> \<open>the document\<close>
  root_data_theme :: "string option"
  body_data_theme :: "string option"
  body_classes :: "string list"
  body_transition :: string
  loading_screen :: "string list option"
  navbar :: "string list option"
  theme_toggle :: "toggle_button option"
  nav_links :: "nav_link list"
  scroll_to_top :: bool
  n_animated :: nat
  n_quick_cards :: nat
  n_cards :: nat
  n_stat_numbers :: nat
  n_buttons :: nat
  n_tooltips :: nat
  n_form_fields :: nat
  n_lazy_images :: nat
  n_html_links :: nat
  orb_animations :: "string list"
  body_children :: "string list"
  head_links :: "string list"
  progress_width :: rat
  \<comment> \<open>what has been registered so far; each \<^verbatim>\<open>setTimeout\<close> call with the time it falls due\<close>
  listeners :: "listener list"
  observed :: "observation list"
  timers :: "(int \<times> timer_task) list"

definition addListener :: "listener \<Rightarrow> page \<Rightarrow> page" where
  "addListener l s = s\<lparr>listeners := listeners s @ [l]\<rparr>"

definition addListeners :: "listener list \<Rightarrow> page \<Rightarrow> page" where
  "addListeners ls s = s\<lparr>listeners := listeners s @ ls\<rparr>"

definition setTimeout :: "timer_task \<Rightarrow> int \<Rightarrow> page \<Rightarrow> page" where
  "setTimeout t delay s = s\<lparr>timers := timers s @ [(now s + delay, t)]\<rparr>"

subsection \<open>The theme system\<close>

text \<open>
  \<^verbatim>\<open>updateThemeIcon\<close>: returns at once when the button is missing; otherwise queries both
  icons and then writes their opacities, the light icon's first. Reading \<^verbatim>\<open>.style\<close> of a
  \<^verbatim>\<open>null\<close> icon throws \<^verbatim>\<open>TypeError\<close>. \<open>setOpacities l d\<close> is the pair of assignments of one
  branch.
\<close>

definition setOpacities :: "string \<Rightarrow> string \<Rightarrow> toggle_button \<Rightarrow> page \<Rightarrow> page outcome" where
  "setOpacities l d btn s =
     (case light_icon btn of
        None \<Rightarrow> Threw TypeError s
      | Some _ \<Rightarrow>
          (let btn1 = btn\<lparr>light_icon := Some l\<rparr>;
               s1 = s\<lparr>theme_toggle := Some btn1\<rparr>
           in case dark_icon btn1 of
                None \<Rightarrow> Threw TypeError s1
              | Some _ \<Rightarrow> Done (s1\<lparr>theme_toggle := Some (btn1\<lparr>dark_icon := Some d\<rparr>)\<rparr>)))"

definition updateThemeIcon :: "page \<Rightarrow> page outcome" where
  "updateThemeIcon s =
     (case theme_toggle s of
        None \<Rightarrow> Done s
      | Some btn \<Rightarrow>
          if theme s = ''dark'' then setOpacities ''0'' ''1'' btn s
          else setOpacities ''1'' ''0'' btn s)"

text \<open>
  \<^verbatim>\<open>setTheme(theme)\<close>: the two attributes, the storage write, the field, the icons, then the
  50ms repaint timer, in the source's order. The script runs after \<^verbatim>\<open>DOMContentLoaded\<close>, so
  \<^verbatim>\<open>document.body\<close> exists.
\<close>

definition setTheme :: "string \<Rightarrow> page \<Rightarrow> page outcome" where
  "setTheme th s =
     (let s1 = s\<lparr>root_data_theme := Some th, body_data_theme := Some th\<rparr>
      in case setItem ''theme'' th (local_storage s1) of
           Inl e \<Rightarrow> Threw e s1
         | Inr st \<Rightarrow>
             andThen (updateThemeIcon (s1\<lparr>local_storage := st, theme := th\<rparr>))
               (\<lambda>s3. Done (setTimeout ForceRepaint 50 s3)))"

definition triggerThemeTransition :: "page \<Rightarrow> page" where
  "triggerThemeTransition s =
     setTimeout TransitionReset 300 (s\<lparr>body_transition := ''all 0.3s ease''\<rparr>)"

definition toggleTheme :: "page \<Rightarrow> page outcome" where
  "toggleTheme s =
     (let newTheme = (if theme s = ''light'' then ''dark'' else ''light'')
      in andThen (setTheme newTheme s) (\<lambda>s1. Done (triggerThemeTransition s1)))"

subsection \<open>The loading sequence\<close>

text \<open>
  \<^verbatim>\<open>initLoading\<close> returns at once without the overlay; otherwise it takes \<^verbatim>\<open>startTime\<close> and
  registers the window-load listener, the closure \<open>onLoad_hideLoading\<close>. The closures keep
  a reference to the overlay element; nothing else in the script removes it, so they act
  on \<open>loading_screen\<close>.
\<close>

definition initLoading :: "page \<Rightarrow> page" where
  "initLoading s =
     (case loading_screen s of
        None \<Rightarrow> s
      | Some _ \<Rightarrow> addListener (Load_hideLoading (now s)) s)"

definition onLoad_hideLoading :: "int \<Rightarrow> page \<Rightarrow> page" where
  "onLoad_hideLoading startTime s =
     (let elapsedTime = now s - startTime;
          remainingTime = max 0 (300 - elapsedTime)
      in setTimeout HideLoading remainingTime s)"

definition initScrollToTop :: "page \<Rightarrow> page" where
  "initScrollToTop s =
     (if \<not> scroll_to_top s then s
      else addListener Click_scrollToTop (addListener Scroll_scrollToTop s))"

definition initStatCounters :: "page \<Rightarrow> page" where
  "initStatCounters s = s\<lparr>observed := observed s @ map Counter [0..<n_stat_numbers s]\<rparr>"

definition initPageTransitions :: "page \<Rightarrow> page" where
  "initPageTransitions s = addListeners (map Click_pageTransition [0..<n_html_links s]) s"

definition triggerEntranceAnimations :: "page \<Rightarrow> page" where
  "triggerEntranceAnimations s =
     fold (\<lambda>index. setTimeout (EntranceCard index) 200) [0..<n_quick_cards s] s"

definition initPostLoad :: "page \<Rightarrow> page" where
  "initPostLoad s =
     triggerEntranceAnimations (initPageTransitions (initStatCounters (initScrollToTop s)))"

text \<open>\<^verbatim>\<open>hideLoading\<close>, and the callback it schedules 500ms ahead (\<open>finishLoading\<close>).\<close>

definition hideLoading :: "page \<Rightarrow> page" where
  "hideLoading s =
     setTimeout FinishLoading 500
       (s\<lparr>loading_screen := map_option (classAdd ''hidden'') (loading_screen s)\<rparr>)"

definition finishLoading :: "page \<Rightarrow> page" where
  "finishLoading s = initPostLoad (s\<lparr>loading_screen := None, loadingComplete := True\<rparr>)"

text \<open>
  A listener at the window's load event. The performance monitor's listener reads timing
  entries and reports web vitals, if that library is there, to callbacks that do nothing.
\<close>

fun runLoad :: "listener \<Rightarrow> page \<Rightarrow> page" where
  "runLoad (Load_hideLoading startTime) s = onLoad_hideLoading startTime s"
| "runLoad l s = s"

text \<open>
  A timer's callback. The repaint sets \<^verbatim>\<open>body.style.display\<close> to \<^verbatim>\<open>none\<close>, reads the height
  and clears the property again; the entrance callback styles a card; neither touches a
  part of the page that is modelled.
\<close>

fun runTask :: "timer_task \<Rightarrow> page \<Rightarrow> page" where
  "runTask ForceRepaint s = s"
| "runTask TransitionReset s = s\<lparr>body_transition := []\<rparr>"
| "runTask HideLoading s = hideLoading s"
| "runTask FinishLoading s = finishLoading s"
| "runTask (EntranceCard index) s = s"
| "runTask RemoveAnnouncement s = s\<lparr>body_children := remove1 ''announcement'' (body_children s)\<rparr>"

subsection \<open>Navigation\<close>

definition lastSegment :: "string \<Rightarrow> string" where
  "lastSegment path = rev (takeWhile (\<lambda>c. c \<noteq> CHR ''/'') (rev path))"

fun replaceFirst :: "string \<Rightarrow> string \<Rightarrow> string \<Rightarrow> string" where
  "replaceFirst pat rep [] = (if pat = [] then rep else [])"
| "replaceFirst pat rep (c # cs) =
     (if prefix pat (c # cs) then rep @ drop (length pat) (c # cs)
      else c # replaceFirst pat rep cs)"

definition getCurrentPage :: "page \<Rightarrow> string" where
  "getCurrentPage s =
     (let fileName = orDefault (Some (lastSegment (pathname s))) ''index.html''
      in orDefault (Some (replaceFirst ''.html'' [] fileName)) ''home'')"

definition updateActiveNavLink :: "page \<Rightarrow> page" where
  "updateActiveNavLink s =
     s\<lparr>nav_links :=
         map (\<lambda>l. let l1 = l\<lparr>link_classes := classRemove ''active'' (link_classes l)\<rparr>
                  in if data_page l1 = Some (currentPage s)
                     then l1\<lparr>link_classes := classAdd ''active'' (link_classes l1)\<rparr>
                     else l1)
           (nav_links s)\<rparr>"

definition startsWithHash :: "string \<Rightarrow> bool" where
  "startsWithHash h = (case h of [] \<Rightarrow> False | c # _ \<Rightarrow> c = CHR ''#'')"

text \<open>
  The \<^verbatim>\<open>forEach\<close> over the nav links: \<^verbatim>\<open>link.getAttribute('href')\<close> is \<^verbatim>\<open>null\<close> for a link
  without the attribute, and \<^verbatim>\<open>null.startsWith\<close> throws.
\<close>

fun bindSmoothScroll :: "nat \<Rightarrow> nav_link list \<Rightarrow> page \<Rightarrow> page outcome" where
  "bindSmoothScroll i [] s = Done s"
| "bindSmoothScroll i (l # ls) s =
     (case href l of
        None \<Rightarrow> Threw TypeError s
      | Some h \<Rightarrow>
          bindSmoothScroll (Suc i) ls
            (if startsWithHash h then addListener (Click_smoothScroll i) s else s))"

definition initNavigation :: "page \<Rightarrow> page outcome" where
  "initNavigation s =
     (let s1 = addListener Scroll_updateNavbar s;
          s2 = (if theme_toggle s1 \<noteq> None then addListener Click_themeToggle s1 else s1);
          s3 = updateActiveNavLink s2
      in bindSmoothScroll 0 (nav_links s3) s3)"

text \<open>
  The animation-frame callback of the scroll listener, at scroll offset \<open>scrollY\<close>. It
  dereferences \<^verbatim>\<open>navbar\<close> unguarded. (The closure's \<^verbatim>\<open>lastScrollY\<close> and \<^verbatim>\<open>ticking\<close> are not
  modelled.)
\<close>

definition updateNavbar :: "rat \<Rightarrow> page \<Rightarrow> page outcome" where
  "updateNavbar scrollY s =
     (case navbar s of
        None \<Rightarrow> Threw TypeError s
      | Some cs \<Rightarrow>
          Done (s\<lparr>navbar := Some (if scrollY > 100 then classAdd ''scrolled'' cs
                                   else classRemove ''scrolled'' cs)\<rparr>))"

subsection \<open>Scroll progress\<close>

text \<open>
  JavaScript numbers are modelled as exact rationals. The scroll listener reads four
  numbers from the window and the document, here a \<open>viewport\<close>; \<^verbatim>\<open>a || b\<close> on numbers takes
  \<^verbatim>\<open>b\<close> when \<^verbatim>\<open>a\<close> is zero. The width written is the percentage, followed by \<^verbatim>\<open>%\<close>.
\<close>

record viewport =
  pageYOffset :: rat
  docScrollTop :: rat
  docScrollHeight :: rat
  innerHeight :: rat

definition scrollPercent :: "viewport \<Rightarrow> rat" where
  "scrollPercent v =
     (let scrollTop = (if pageYOffset v = 0 then docScrollTop v else pageYOffset v);
          scrollHeight = docScrollHeight v - innerHeight v
      in if scrollHeight > 0 then (scrollTop / scrollHeight) * 100 else 0)"

definition progressWidth :: "viewport \<Rightarrow> rat" where
  "progressWidth v = min (max (scrollPercent v) 0) 100"

definition onScroll_progress :: "viewport \<Rightarrow> page \<Rightarrow> page" where
  "onScroll_progress v s = s\<lparr>progress_width := progressWidth v\<rparr>"

definition initScrollProgress :: "page \<Rightarrow> page" where
  "initScrollProgress s =
     addListener Scroll_progress
       (s\<lparr>body_children := remove1 ''scroll-progress'' (body_children s) @ [''scroll-progress''],
          progress_width := 0\<rparr>)"

subsection \<open>The other initializers\<close>

text \<open>
  None of these dereferences an element that may be missing: each works on a
  \<^verbatim>\<open>querySelectorAll\<close> result (empty when nothing matches) or on elements it creates. They
  are modelled by what they add to the document and register with the browser; the
  elements they create are named by class or id in \<open>body_children\<close>.
\<close>

definition initBackToTop :: "page \<Rightarrow> page" where
  "initBackToTop s =
     addListeners [Scroll_backToTop, Click_backToTop, Keydown_backToTop]
       (s\<lparr>body_children := body_children s @ [''back-to-top'']\<rparr>)"

definition initScrollAnimations :: "page \<Rightarrow> page" where
  "initScrollAnimations s = s\<lparr>observed := observed s @ map Animated [0..<n_animated s]\<rparr>"

definition initAnimations :: "page \<Rightarrow> page" where
  "initAnimations s =
     initScrollAnimations (if aos_defined s then s\<lparr>aos_initialised := True\<rparr> else s)"

definition initButtonRipples :: "page \<Rightarrow> page" where
  "initButtonRipples s = addListeners (map Click_ripple [0..<n_buttons s]) s"

definition initCardEffects :: "page \<Rightarrow> page" where
  "initCardEffects s =
     addListeners
       (concat (map (\<lambda>i. [Mousemove_tilt i, Mouseleave_tilt i, Mouseenter_glow i, Mouseleave_glow i])
                  [0..<n_cards s])) s"

definition initTooltips :: "page \<Rightarrow> page" where
  "initTooltips s =
     addListeners
       (concat (map (\<lambda>i. [Mouseenter_tooltip i, Mouseleave_tooltip i]) [0..<n_tooltips s])) s"

definition initFormInteractions :: "page \<Rightarrow> page" where
  "initFormInteractions s =
     addListeners
       (concat (map (\<lambda>i. [Focus_field i, Blur_field i, Input_validate i]) [0..<n_form_fields s])) s"

definition initKeyboardNavigation :: "page \<Rightarrow> page" where
  "initKeyboardNavigation s = addListeners [Keydown_keyboardNav, Mousedown_keyboardNav] s"

definition initInteractions :: "page \<Rightarrow> page" where
  "initInteractions s =
     initKeyboardNavigation (initFormInteractions (initTooltips (initCardEffects (initButtonRipples s))))"

definition initLazyLoading :: "page \<Rightarrow> page" where
  "initLazyLoading s = s\<lparr>observed := observed s @ map LazyImage [0..<n_lazy_images s]\<rparr>"

definition preloadCriticalResources :: "page \<Rightarrow> page" where
  "preloadCriticalResources s =
     s\<lparr>head_links := head_links s @ [''about.html'', ''research.html'', ''contact.html'']\<rparr>"

definition monitorPerformance :: "page \<Rightarrow> page" where
  "monitorPerformance s = (if \<not> performance_defined s then s else addListener Load_monitor s)"

text \<open>A comparison with \<^verbatim>\<open>undefined\<close> is false.\<close>

definition isLowEnd :: "page \<Rightarrow> bool" where
  "isLowEnd s =
     ((case hardwareConcurrency s of None \<Rightarrow> False | Some n \<Rightarrow> n < 4) \<or>
      (case deviceMemory s of None \<Rightarrow> False | Some m \<Rightarrow> m < 2))"

definition optimizeForLowEnd :: "page \<Rightarrow> page" where
  "optimizeForLowEnd s =
     addListener Visibilitychange_pause
       (if isLowEnd s
        then s\<lparr>body_classes := classAdd ''reduced-motion'' (body_classes s),
               orb_animations := map (\<lambda>_. ''none'') (orb_animations s)\<rparr>
        else s)"

definition initPerformance :: "page \<Rightarrow> page" where
  "initPerformance s =
     optimizeForLowEnd (monitorPerformance (preloadCriticalResources (initLazyLoading s)))"

definition announcePageChange :: "page \<Rightarrow> page" where
  "announcePageChange s =
     setTimeout RemoveAnnouncement 1000 (s\<lparr>body_children := body_children s @ [''announcement'']\<rparr>)"

definition initSkipLinks :: "page \<Rightarrow> page" where
  "initSkipLinks s =
     (addListeners [Focus_skipLink, Blur_skipLink] s)\<lparr>body_children := ''skip-link'' # body_children s\<rparr>"

definition initFocusManagement :: "page \<Rightarrow> page" where
  "initFocusManagement s = addListener Keydown_focusTrap s"

definition initLiveRegions :: "page \<Rightarrow> page" where
  "initLiveRegions s = s\<lparr>body_children := body_children s @ [''live-region'']\<rparr>"

definition initAccessibility :: "page \<Rightarrow> page" where
  "initAccessibility s =
     initLiveRegions (initFocusManagement (initSkipLinks (announcePageChange s)))"

subsection \<open>Start-up\<close>

text \<open>
  \<^verbatim>\<open>init\<close> calls the nine initializers one after the other, with no \<^verbatim>\<open>try\<close> around any of
  them; of the nine, \<^verbatim>\<open>setTheme\<close> and \<^verbatim>\<open>initNavigation\<close> can throw.
\<close>

definition init :: "page \<Rightarrow> page outcome" where
  "init s =
     andThen (setTheme (theme s) s) (\<lambda>s1.
     andThen (initNavigation (initLoading s1)) (\<lambda>s2.
     Done (initAccessibility (initPerformance (initInteractions (initAnimations
             (initBackToTop (initScrollProgress s2))))))))"

text \<open>\<^verbatim>\<open>new ModernPortfolio()\<close>: the constructor, which ends in \<^verbatim>\<open>this.init()\<close>.\<close>

definition constructor :: "page \<Rightarrow> page outcome" where
  "constructor s =
     (case getItem ''theme'' (local_storage s) of
        Inl e \<Rightarrow> Threw e s
      | Inr v \<Rightarrow>
          (let s1 = s\<lparr>theme := orDefault v ''light''\<rparr>;
               s2 = s1\<lparr>currentPage := getCurrentPage s1\<rparr>;
               s3 = s2\<lparr>loadingComplete := False\<rparr>
           in init s3))"

subsection \<open>Stat counters\<close>







text \<open>The easing formula at step \<open>k\<close>, in exact arithmetic.\<close>

definition shown :: "int \<Rightarrow> nat \<Rightarrow> int" where
  "shown target k = \<lfloor>of_int target * (1 - (1 - (of_nat k / 60 :: rat)) ^ 3)\<rfloor>"

subsection \<open>Form validation\<close>

text \<open>
  Strings are lists of 8-bit characters, so the white space of \<^verbatim>\<open>trim\<close> and of the
  pattern's \<^verbatim>\<open>\s\<close> is the part of it below code 256: tab, line feed, vertical tab, form
  feed, carriage return, space and no-break space.
\<close>

definition isSpace :: "char \<Rightarrow> bool" where
  "isSpace c = (of_char c \<in> {9, 10, 11, 12, 13, 32, 160 :: nat})"

definition trim :: "string \<Rightarrow> string" where
  "trim s = rev (dropWhile isSpace (rev (dropWhile isSpace s)))"

text \<open>
  The pattern \<^verbatim>\<open>/^[^\s@]+@[^\s@]+\.[^\s@]+$/\<close>: the string splits, at an \<^verbatim>\<open>@\<close> in position \<open>i\<close>
  and a dot in a later position \<open>j\<close>, into three non-empty runs of characters that are
  neither white space nor \<^verbatim>\<open>@\<close>.
\<close>

definition plainChar :: "char \<Rightarrow> bool" where
  "plainChar c = (\<not> isSpace c \<and> c \<noteq> CHR ''@'')"

definition emailRegex_test :: "string \<Rightarrow> bool" where
  "emailRegex_test s =
     list_ex (\<lambda>i. list_ex (\<lambda>j.
         s ! i = CHR ''@'' \<and> s ! j = CHR ''.'' \<and>
         take i s \<noteq> [] \<and> list_all plainChar (take i s) \<and>
         list_all plainChar (take (j - Suc i) (drop (Suc i) s)) \<and>
         drop (Suc j) s \<noteq> [] \<and> list_all plainChar (drop (Suc j) s))
       [i + 2..<length s]) [0..<length s]"

text \<open>
  A form field with the class list of its parent element, the field's container. The call
  returns the boolean and leaves the field with its container's classes updated.
\<close>

record field =
  field_value :: string
  required :: bool
  field_type :: string
  container_classes :: "string list"

definition validateField :: "field \<Rightarrow> bool \<times> field" where
  "validateField f =
     (let v = trim (field_value f);
          f1 = f\<lparr>container_classes :=
                   classRemove ''invalid'' (classRemove ''valid'' (container_classes f))\<rparr>;
          invalid = f1\<lparr>container_classes := classAdd ''invalid'' (container_classes f1)\<rparr>
      in if required f1 \<and> v = [] then (False, invalid)
         else if field_type f1 = ''email'' \<and> v \<noteq> [] \<and> \<not> emailRegex_test v then (False, invalid)
         else if v \<noteq> [] then (True, f1\<lparr>container_classes := classAdd ''valid'' (container_classes f1)\<rparr>)
         else (True, f1))"

subsection \<open>The early theme script\<close>

text \<open>
  The second script of the repository runs in the document's head, before the page
  renders, and reads the same storage key. Its whole body is inside \<^verbatim>\<open>try\<close>; the \<^verbatim>\<open>catch\<close>
  logs the error and sets the root's attribute to \<^verbatim>\<open>light\<close>. The body element may not
  exist yet: then \<^verbatim>\<open>initializeBodyTheme\<close> is registered to run later.
\<close>

datatype deferred = On_DOMContentLoaded | On_timeout | On_load

record early_document =
  e_storage :: storage
  e_root_theme :: "string option"
  e_root_classes :: "string list"
  e_body :: "(string option \<times> string list) option"
  e_loading :: bool
  e_deferred :: "deferred list"
  e_logged :: "js_error list"

definition initializeBodyTheme :: "string \<Rightarrow> early_document \<Rightarrow> early_document" where
  "initializeBodyTheme savedTheme d =
     (case e_body d of
        None \<Rightarrow> d
      | Some (_, classes) \<Rightarrow>
          if savedTheme = ''dark''
          then d\<lparr>e_body := Some (Some savedTheme, classAdd ''dark-theme'' classes),
                 e_root_classes := classAdd ''dark-theme'' (e_root_classes d)\<rparr>
          else d\<lparr>e_body := Some (Some savedTheme, classAdd ''light-theme'' classes),
                 e_root_classes := classAdd ''light-theme'' (e_root_classes d)\<rparr>)"

definition themeInit :: "early_document \<Rightarrow> early_document" where
  "themeInit d =
     (case getItem ''theme'' (e_storage d) of
        Inl e \<Rightarrow> d\<lparr>e_logged := e_logged d @ [e], e_root_theme := Some ''light''\<rparr>
      | Inr v \<Rightarrow>
          (let savedTheme = orDefault v ''light'';
               d1 = d\<lparr>e_root_theme := Some savedTheme\<rparr>
           in if e_body d1 \<noteq> None then initializeBodyTheme savedTheme d1
              else d1\<lparr>e_deferred := e_deferred d1 @
                         [if e_loading d1 then On_DOMContentLoaded else On_timeout, On_load]\<rparr>))"

subsection \<open>Observations and sample pages\<close>

text \<open>
  What the properties below speak of: the stored preference; the theme that the toggle's
  icons show (the one icon with opacity 1 while the other has opacity 0); and the three
  conditions under which nothing in start-up throws.
\<close>

definition stored_theme :: "page \<Rightarrow> string option" where
  "stored_theme s = items (local_storage s) ''theme''"

definition visible_icon :: "toggle_button \<Rightarrow> string option" where
  "visible_icon btn =
     (if light_icon btn = Some ''1'' \<and> dark_icon btn = Some ''0'' then Some ''light''
      else if light_icon btn = Some ''0'' \<and> dark_icon btn = Some ''1'' then Some ''dark''
      else None)"

definition theme_agrees :: "string \<Rightarrow> page \<Rightarrow> bool" where
  "theme_agrees th s =
     (root_data_theme s = Some th \<and> stored_theme s = Some th \<and>
      (case theme_toggle s of None \<Rightarrow> True | Some btn \<Rightarrow> visible_icon btn = Some th))"

definition storage_ok :: "storage \<Rightarrow> bool" where
  "storage_ok st = (\<not> denied st \<and> \<not> full st)"

definition icons_ok :: "page \<Rightarrow> bool" where
  "icons_ok s =
     (case theme_toggle s of
        None \<Rightarrow> True
      | Some btn \<Rightarrow> light_icon btn \<noteq> None \<and> dark_icon btn \<noteq> None)"

definition links_ok :: "page \<Rightarrow> bool" where
  "links_ok s = list_all (\<lambda>l. href l \<noteq> None) (nav_links s)"

definition theme_view ::
  "page \<Rightarrow> string \<times> string option \<times> string option \<times> storage \<times> toggle_button option" where
  "theme_view s =
     (theme s, root_data_theme s, body_data_theme s, local_storage s, theme_toggle s)"


text \<open>
  A document with none of the optional elements, before the script has run; and the site's
  home page: loading overlay, navbar, toggle button with both icons, two nav links.
\<close>

definition blank_page :: page where
  "blank_page =
     \<lparr>theme = [], currentPage = [], loadingComplete = False,
      local_storage = \<lparr>denied = False, full = False, items = Map.empty\<rparr>,
      now = 0, pathname = ''/index.html'', aos_defined = False, aos_initialised = False,
      performance_defined = True, hardwareConcurrency = Some 8, deviceMemory = None,
      root_data_theme = None, body_data_theme = None, body_classes = [], body_transition = [],
      loading_screen = None, navbar = None, theme_toggle = None, nav_links = [],
      scroll_to_top = False, n_animated = 0, n_quick_cards = 0, n_cards = 0,
      n_stat_numbers = 0, n_buttons = 0, n_tooltips = 0, n_form_fields = 0,
      n_lazy_images = 0, n_html_links = 0, orb_animations = [], body_children = [],
      head_links = [], progress_width = 0, listeners = [], observed = [], timers = []\<rparr>"

definition home_page :: page where
  "home_page =
     blank_page
       \<lparr>loading_screen := Some [],
        navbar := Some [''navbar''],
        theme_toggle := Some \<lparr>light_icon = Some [], dark_icon = Some []\<rparr>,
        nav_links := [\<lparr>href = Some ''index.html'', data_page = Some ''index'', link_classes = [''nav-link'']\<rparr>,
                      \<lparr>href = Some ''#contact'', data_page = None, link_classes = [''nav-link'']\<rparr>],
        scroll_to_top := True, n_quick_cards := 2, n_stat_numbers := 1, n_html_links := 1\<rparr>"

definition with_stored :: "string \<Rightarrow> page \<Rightarrow> page" where
  "with_stored v s = s\<lparr>local_storage := (local_storage s)\<lparr>items := (items (local_storage s))(''theme'' \<mapsto> v)\<rparr>\<rparr>"

section \<open>Properties\<close>

subsection \<open>Theme: what a call leaves behind, and when it returns\<close>

lemma updateThemeIcon_cases:
  "updateThemeIcon s = Done s' \<Longrightarrow>
     (theme_toggle s = None \<and> s' = s) \<or>
     (\<exists>btn. theme_toggle s = Some btn \<and> light_icon btn \<noteq> None \<and> dark_icon btn \<noteq> None \<and>
        s' = s\<lparr>theme_toggle := Some (if theme s = ''dark''
                 then \<lparr>light_icon = Some ''0'', dark_icon = Some ''1''\<rparr>
                 else \<lparr>light_icon = Some ''1'', dark_icon = Some ''0''\<rparr>)\<rparr>)"
  by (auto simp: updateThemeIcon_def setOpacities_def Let_def split: option.splits if_splits)

lemma setTheme_Done:
  assumes "setTheme th s = Done s'"
  shows "root_data_theme s' = Some th \<and> body_data_theme s' = Some th \<and>
         stored_theme s' = Some th \<and> theme s' = th \<and>
         (case theme_toggle s' of None \<Rightarrow> theme_toggle s = None
          | Some b \<Rightarrow> b = (if th = ''dark''
                 then \<lparr>light_icon = Some ''0'', dark_icon = Some ''1''\<rparr>
                 else \<lparr>light_icon = Some ''1'', dark_icon = Some ''0''\<rparr>))"
  using assms
  by (auto simp: setTheme_def setItem_def andThen_def setTimeout_def stored_theme_def Let_def
       split: sum.splits if_splits outcome.splits option.splits dest!: updateThemeIcon_cases)

lemma updateThemeIcon_completed:
  "completed (updateThemeIcon s) = icons_ok s"
  by (simp add: updateThemeIcon_def setOpacities_def icons_ok_def Let_def split: option.splits)

lemma setTheme_completed:
  "completed (setTheme th s) = (storage_ok (local_storage s) \<and> icons_ok s)"
  apply (simp add: setTheme_def setItem_def andThen_def storage_ok_def Let_def split: outcome.splits)
  apply (auto simp: icons_ok_def updateThemeIcon_def setOpacities_def Let_def split: option.splits)
  done

lemma bindSmoothScroll_frame:
  "\<exists>L. state_of (bindSmoothScroll i ls s) = s\<lparr>listeners := L\<rparr>"
proof (induction ls arbitrary: i s)
  case Nil
  have "s = s\<lparr>listeners := listeners s\<rparr>" by simp
  then show ?case by (metis bindSmoothScroll.simps(1) state_of.simps(1))
next
  case (Cons l ls)
  show ?case
  proof (cases "href l")
    case None
    have "s = s\<lparr>listeners := listeners s\<rparr>" by simp
    with None show ?thesis by (metis bindSmoothScroll.simps(2) option.simps(4) state_of.simps(2))
  next
    case (Some h)
    obtain L where "state_of (bindSmoothScroll (Suc i) ls
            (if startsWithHash h then addListener (Click_smoothScroll i) s else s)) =
          (if startsWithHash h then addListener (Click_smoothScroll i) s else s)\<lparr>listeners := L\<rparr>"
      using Cons.IH by blast
    with Some show ?thesis by (auto simp: addListener_def)
  qed
qed

lemma bindSmoothScroll_completed:
  "completed (bindSmoothScroll i ls s) = list_all (\<lambda>l. href l \<noteq> None) ls"
  by (induction ls arbitrary: i s) (auto split: option.splits)

lemma view_addListener [simp]: "theme_view (addListener l s) = theme_view s"
  by (simp add: theme_view_def addListener_def)

lemma view_addListeners [simp]: "theme_view (addListeners ls s) = theme_view s"
  by (simp add: theme_view_def addListeners_def)

lemma view_setTimeout [simp]: "theme_view (setTimeout t d s) = theme_view s"
  by (simp add: theme_view_def setTimeout_def)

lemma view_updateActiveNavLink [simp]: "theme_view (updateActiveNavLink s) = theme_view s"
  by (simp add: theme_view_def updateActiveNavLink_def)

lemma links_ok_updateActiveNavLink [simp]: "links_ok (updateActiveNavLink s) = links_ok s"
  by (simp add: links_ok_def updateActiveNavLink_def list.pred_map comp_def Let_def)

lemma links_ok_addListener [simp]: "links_ok (addListener l s) = links_ok s"
  by (simp add: links_ok_def addListener_def)

lemma initNavigation_completed:
  "completed (initNavigation s) = links_ok s"
proof -
  have "completed (bindSmoothScroll 0 (nav_links s') s') = links_ok s'" for s'
    by (simp add: bindSmoothScroll_completed links_ok_def)
  then show ?thesis by (simp add: initNavigation_def Let_def)
qed

lemma bindSmoothScroll_view [simp]:
  "theme_view (state_of (bindSmoothScroll i ls s)) = theme_view s"
proof -
  obtain L where "state_of (bindSmoothScroll i ls s) = s\<lparr>listeners := L\<rparr>"
    using bindSmoothScroll_frame by blast
  then show ?thesis by (simp add: theme_view_def)
qed

lemma initNavigation_view [simp]:
  "theme_view (state_of (initNavigation s)) = theme_view s"
  by (simp add: initNavigation_def Let_def)

lemma view_fold_setTimeout [simp]:
  "theme_view (fold (\<lambda>i. setTimeout (f i) d) xs s) = theme_view s"
  by (induction xs arbitrary: s) simp_all

lemma initLoading_view [simp]: "theme_view (initLoading s) = theme_view s"
  by (simp add: initLoading_def split: option.splits)

lemma initLoading_links [simp]: "links_ok (initLoading s) = links_ok s"
  by (simp add: initLoading_def split: option.splits)

lemma later_initializers_view [simp]:
  "theme_view (initAccessibility (initPerformance (initInteractions (initAnimations
             (initBackToTop (initScrollProgress s)))))) = theme_view s"
  by (simp add: theme_view_def initAccessibility_def initLiveRegions_def initFocusManagement_def
        initSkipLinks_def announcePageChange_def initPerformance_def optimizeForLowEnd_def
        monitorPerformance_def preloadCriticalResources_def initLazyLoading_def
        initInteractions_def initKeyboardNavigation_def initFormInteractions_def
        initTooltips_def initCardEffects_def initButtonRipples_def initAnimations_def
        initScrollAnimations_def initBackToTop_def initScrollProgress_def
        addListener_def addListeners_def setTimeout_def)

lemma init_view:
  "theme_view (state_of (init s)) = theme_view (state_of (setTheme (theme s) s))"
proof (cases "setTheme (theme s) s")
  case (Threw e s1)
  then show ?thesis by (simp add: init_def andThen_def)
next
  case (Done s1)
  show ?thesis
  proof (cases "initNavigation (initLoading s1)")
    case (Threw e s2)
    have "theme_view (state_of (initNavigation (initLoading s1))) = theme_view s1" by simp
    with Threw Done show ?thesis by (simp add: init_def andThen_def)
  next
    case Done2: (Done s2)
    have "theme_view (state_of (initNavigation (initLoading s1))) = theme_view s1" by simp
    with Done2 have "theme_view s2 = theme_view s1" by simp
    with Done Done2 show ?thesis by (simp add: init_def andThen_def)
  qed
qed

lemma setTheme_links [simp]:
  "links_ok (state_of (setTheme th s)) = links_ok s"
  by (auto simp: setTheme_def setItem_def andThen_def updateThemeIcon_def setOpacities_def
        links_ok_def setTimeout_def Let_def split: option.splits outcome.splits)

lemma init_completed:
  "completed (init s) = (storage_ok (local_storage s) \<and> icons_ok s \<and> links_ok s)"
proof (cases "setTheme (theme s) s")
  case (Threw e s1)
  have "\<not> (storage_ok (local_storage s) \<and> icons_ok s)"
    using setTheme_completed[of "theme s" s] Threw by simp
  with Threw show ?thesis by (auto simp: init_def andThen_def)
next
  case (Done s1)
  have a: "storage_ok (local_storage s) \<and> icons_ok s"
    using setTheme_completed[of "theme s" s] Done by simp
  have b: "links_ok s1 = links_ok s"
    using setTheme_links[of "theme s" s] Done by simp
  have "completed (init s) = completed (initNavigation (initLoading s1))"
    using Done by (simp add: init_def andThen_def split: outcome.splits)
  with a b show ?thesis by (simp add: initNavigation_completed)
qed


lemma completed_Done: "completed r \<Longrightarrow> r = Done (state_of r)"
  by (cases r) simp_all

lemma setTheme_state:
  assumes "storage_ok (local_storage s)" "icons_ok s"
  shows "theme (state_of (setTheme th s)) = th"
    and "root_data_theme (state_of (setTheme th s)) = Some th"
    and "body_data_theme (state_of (setTheme th s)) = Some th"
    and "stored_theme (state_of (setTheme th s)) = Some th"
proof -
  have "completed (setTheme th s)" using assms by (simp add: setTheme_completed)
  then have "setTheme th s = Done (state_of (setTheme th s))" by (rule completed_Done)
  from setTheme_Done[OF this]
  show "theme (state_of (setTheme th s)) = th"
    and "root_data_theme (state_of (setTheme th s)) = Some th"
    and "body_data_theme (state_of (setTheme th s)) = Some th"
    and "stored_theme (state_of (setTheme th s)) = Some th"
    by simp_all
qed

lemma view_fields:
  "theme_view a = theme_view b \<Longrightarrow>
     theme a = theme b \<and> root_data_theme a = root_data_theme b \<and>
     body_data_theme a = body_data_theme b \<and> stored_theme a = stored_theme b \<and>
     theme_toggle a = theme_toggle b"
  by (simp add: theme_view_def stored_theme_def)

lemma constructor_theme:
  assumes "storage_ok (local_storage s)" "icons_ok s"
  shows "theme (state_of (constructor s)) = orDefault (stored_theme s) ''light''"
    and "root_data_theme (state_of (constructor s)) = Some (orDefault (stored_theme s) ''light'')"
    and "body_data_theme (state_of (constructor s)) = Some (orDefault (stored_theme s) ''light'')"
    and "stored_theme (state_of (constructor s)) = Some (orDefault (stored_theme s) ''light'')"
    and "completed (constructor s) = links_ok s"
proof -
  let ?t = "orDefault (items (local_storage s) ''theme'') ''light''"
  let ?s3 = "s\<lparr>theme := ?t, currentPage := getCurrentPage (s\<lparr>theme := ?t\<rparr>), loadingComplete := False\<rparr>"
  have nd: "\<not> denied (local_storage s)" using assms(1) by (simp add: storage_ok_def)
  have c: "constructor s = init ?s3"
    using nd by (simp add: constructor_def getItem_def Let_def)
  have t: "?t = orDefault (stored_theme s) ''light''"
    by (simp add: stored_theme_def)
  have ok: "storage_ok (local_storage ?s3)" "icons_ok ?s3"
    using assms by (simp_all add: icons_ok_def)
  have v: "theme_view (state_of (constructor s)) = theme_view (state_of (setTheme ?t ?s3))"
    using init_view[of ?s3] c by simp
  note f = view_fields[OF v] setTheme_state[OF ok, of ?t]
  show "theme (state_of (constructor s)) = orDefault (stored_theme s) ''light''"
    using f t by simp
  show "root_data_theme (state_of (constructor s)) = Some (orDefault (stored_theme s) ''light'')"
    using f t by simp
  show "body_data_theme (state_of (constructor s)) = Some (orDefault (stored_theme s) ''light'')"
    using f t by simp
  show "stored_theme (state_of (constructor s)) = Some (orDefault (stored_theme s) ''light'')"
    using f t by simp
  show "completed (constructor s) = links_ok s"
    using c ok init_completed[of ?s3] by (simp add: links_ok_def)
qed

lemma home_ok:
  "storage_ok (local_storage (with_stored v home_page))"
  "icons_ok (with_stored v home_page)"
  "links_ok (with_stored v home_page)"
  "stored_theme (with_stored v home_page) = Some v"
  by (simp_all add: with_stored_def home_page_def blank_page_def storage_ok_def icons_ok_def
        links_ok_def stored_theme_def)

subsection \<open>Start-up resolves the theme\<close>

text \<open>
  C1 (as amended). Start-up is the constructor's read of the stored preference followed
  by \<^verbatim>\<open>init\<close>, whose first call is \<^verbatim>\<open>setTheme\<close>. When the storage works and a toggle button
  that is present has both its icons, the active theme after start-up is the stored string
  itself when there is a non-empty one, and \<^verbatim>\<open>light\<close> when the key is absent or empty; the
  root attribute and the stored value are then that theme. So a stored \<^verbatim>\<open>light\<close> or \<^verbatim>\<open>dark\<close>
  is kept, an absent preference becomes \<^verbatim>\<open>light\<close>, and any other stored string is adopted
  as it is: the script never compares the stored string with the two theme names. The
  constructor returns exactly when, in addition, every nav link has an \<^verbatim>\<open>href\<close>.
\<close>

theorem startup_theme:
  assumes "storage_ok (local_storage s)" and "icons_ok s"
  shows "theme (state_of (constructor s)) =
           (case stored_theme s of None \<Rightarrow> ''light'' | Some x \<Rightarrow> if x = [] then ''light'' else x) \<and>
         root_data_theme (state_of (constructor s)) = Some (theme (state_of (constructor s))) \<and>
         stored_theme (state_of (constructor s)) = Some (theme (state_of (constructor s))) \<and>
         completed (constructor s) = links_ok s"
  using constructor_theme[OF assms] by (simp add: orDefault_def)

theorem startup_theme_witness:
  "theme (state_of (constructor (with_stored ''dark'' home_page))) = ''dark'' \<and>
   root_data_theme (state_of (constructor (with_stored ''dark'' home_page))) = Some ''dark'' \<and>
   completed (constructor (with_stored ''dark'' home_page))"
  using startup_theme[of "with_stored ''dark'' home_page"] home_ok[of "''dark''"]
  by simp

text \<open>
  The claim as it was written fails on a corrupt preference: with \<^verbatim>\<open>blue\<close> stored, start-up
  on the home page completes with \<^verbatim>\<open>blue\<close> as the active theme and as the root attribute.
\<close>

theorem startup_corrupt_counterexample:
  "stored_theme (with_stored ''blue'' home_page) = Some ''blue'' \<and>
   completed (constructor (with_stored ''blue'' home_page)) \<and>
   theme (state_of (constructor (with_stored ''blue'' home_page))) = ''blue'' \<and>
   root_data_theme (state_of (constructor (with_stored ''blue'' home_page))) = Some ''blue''"
  using constructor_theme[of "with_stored ''blue'' home_page"] home_ok[of "''blue''"]
  by (simp add: orDefault_def)

subsection \<open>The three displays of the theme agree\<close>

lemma toggleTheme_Done:
  assumes "toggleTheme s = Done s'"
  shows "\<exists>s1. setTheme (if theme s = ''light'' then ''dark'' else ''light'') s = Done s1 \<and>
              s' = triggerThemeTransition s1"
  using assms by (auto simp: toggleTheme_def andThen_def Let_def split: outcome.splits)

lemma view_triggerThemeTransition [simp]:
  "theme_view (triggerThemeTransition s) = theme_view s"
  by (simp add: triggerThemeTransition_def theme_view_def setTimeout_def)

lemma setTheme_agrees:
  assumes "setTheme th s = Done s'" and "th = ''light'' \<or> th = ''dark''"
  shows "theme_agrees th s'"
  using setTheme_Done[OF assms(1)] assms(2)
  by (auto simp: theme_agrees_def visible_icon_def split: option.splits)

lemma agrees_view:
  "theme_view a = theme_view b \<Longrightarrow> theme_agrees th a = theme_agrees th b"
  by (simp add: theme_agrees_def theme_view_def stored_theme_def)

lemma toggleTheme_result:
  assumes "toggleTheme s = Done s'"
  shows "theme s' = (if theme s = ''light'' then ''dark'' else ''light'')"
    and "theme_agrees (theme s') s'"
    and "body_data_theme s' = Some (theme s')"
proof -
  let ?n = "if theme s = ''light'' then ''dark'' else ''light''"
  obtain s1 where s1: "setTheme ?n s = Done s1" and s': "s' = triggerThemeTransition s1"
    using toggleTheme_Done[OF assms] by blast
  have v: "theme_view s' = theme_view s1" using s' by simp
  have n: "?n = ''light'' \<or> ?n = ''dark''" by simp
  have f: "theme s1 = ?n" "body_data_theme s1 = Some ?n" using setTheme_Done[OF s1] by simp_all
  show t: "theme s' = ?n" using view_fields[OF v] f by simp
  have "theme_agrees ?n s1" using setTheme_agrees[OF s1 n] .
  then have "theme_agrees ?n s'" using agrees_view[OF v] by simp
  then show "theme_agrees (theme s') s'" using t by simp
  show "body_data_theme s' = Some (theme s')" using view_fields[OF v] f t by simp
qed

lemma home_plain_ok:
  "storage_ok (local_storage home_page)" "icons_ok home_page"
  by (simp_all add: home_page_def blank_page_def storage_ok_def icons_ok_def)

lemma toggleTheme_completed:
  "completed (toggleTheme s) = (storage_ok (local_storage s) \<and> icons_ok s)"
proof -
  have "completed (toggleTheme s) = completed (setTheme (if theme s = ''light'' then ''dark'' else ''light'') s)"
    by (simp add: toggleTheme_def andThen_def Let_def split: outcome.splits)
  then show ?thesis by (simp only: setTheme_completed)
qed

lemma setTheme_keeps_ok:
  assumes "setTheme th s = Done s'"
  shows "storage_ok (local_storage s')" and "icons_ok s'"
proof -
  have c: "storage_ok (local_storage s) \<and> icons_ok s"
    using setTheme_completed[of th s] assms by simp
  show "storage_ok (local_storage s')"
    using assms c
    by (auto simp: setTheme_def setItem_def andThen_def storage_ok_def setTimeout_def Let_def
          split: if_splits outcome.splits dest!: updateThemeIcon_cases)
  show "icons_ok s'"
    using setTheme_Done[OF assms] by (auto simp: icons_ok_def split: option.splits if_splits)
qed

lemma toggleTheme_keeps_ok:
  assumes "toggleTheme s = Done s'"
  shows "storage_ok (local_storage s')" and "icons_ok s'"
proof -
  obtain s1 where s1: "setTheme (if theme s = ''light'' then ''dark'' else ''light'') s = Done s1"
    and s': "s' = triggerThemeTransition s1"
    using toggleTheme_Done[OF assms] by blast
  have v: "theme_view s' = theme_view s1" using s' by simp
  then have "local_storage s' = local_storage s1" "theme_toggle s' = theme_toggle s1"
    by (simp_all add: theme_view_def)
  then show "storage_ok (local_storage s')" and "icons_ok s'"
    using setTheme_keeps_ok[OF s1] by (simp_all add: icons_ok_def)
qed

lemma agrees_toggle_button:
  assumes "theme_agrees th a" "theme_agrees th b" "(theme_toggle a = None) = (theme_toggle b = None)"
  shows "theme_toggle a = theme_toggle b"
  using assms
  by (auto simp: theme_agrees_def visible_icon_def split: option.splits if_splits
        intro!: toggle_button.equality)

lemma setTheme_button_presence:
  "setTheme th s = Done s' \<Longrightarrow> (theme_toggle s' = None) = (theme_toggle s = None)"
  by (auto simp: setTheme_def setItem_def andThen_def setTimeout_def Let_def
        split: if_splits outcome.splits dest!: updateThemeIcon_cases)

lemma toggleTheme_button_presence:
  assumes "toggleTheme s = Done s'"
  shows "(theme_toggle s' = None) = (theme_toggle s = None)"
proof -
  obtain s1 where s1: "setTheme (if theme s = ''light'' then ''dark'' else ''light'') s = Done s1"
    and s': "s' = triggerThemeTransition s1"
    using toggleTheme_Done[OF assms] by blast
  have "theme_toggle s' = theme_toggle s1" using s' by (simp add: triggerThemeTransition_def setTimeout_def)
  then show ?thesis using setTheme_button_presence[OF s1] by simp
qed

text \<open>
  For a string other than \<^verbatim>\<open>dark\<close> the light icon is the visible one, whatever the string.
  The two timers that \<^verbatim>\<open>setTheme\<close> and \<^verbatim>\<open>toggleTheme\<close> set leave the theme alone when they
  fire. From a theme other than \<^verbatim>\<open>light\<close> a toggle leads to \<^verbatim>\<open>light\<close>. What start-up leaves
  can be toggled when start-up itself could write the theme.
\<close>

lemma setTheme_other_string:
  assumes "setTheme th s = Done s'" and "th \<noteq> ''dark''"
  shows "root_data_theme s' = Some th \<and> stored_theme s' = Some th \<and>
         (case theme_toggle s' of None \<Rightarrow> True | Some btn \<Rightarrow> visible_icon btn = Some ''light'')"
  using setTheme_Done[OF assms(1)] assms(2)
  by (auto simp: visible_icon_def split: option.splits)

lemma theme_timers_keep_theme:
  "theme_view (runTask ForceRepaint s) = theme_view s"
  "theme_view (runTask TransitionReset s) = theme_view s"
  by (simp_all add: theme_view_def)

lemma toggle_from_other_string:
  assumes "theme s \<noteq> ''light''" and "toggleTheme s = Done s1" and "toggleTheme s1 = Done s2"
  shows "theme s1 = ''light'' \<and> theme s2 = ''dark''"
  using toggleTheme_result(1)[OF assms(2)] toggleTheme_result(1)[OF assms(3)] assms(1) by simp

lemma init_keeps_ok:
  assumes "storage_ok (local_storage s)" "icons_ok s"
  shows "storage_ok (local_storage (state_of (init s)))" and "icons_ok (state_of (init s))"
proof -
  have "completed (setTheme (theme s) s)" using assms by (simp add: setTheme_completed)
  then have d: "setTheme (theme s) s = Done (state_of (setTheme (theme s) s))" by (rule completed_Done)
  have v: "theme_view (state_of (init s)) = theme_view (state_of (setTheme (theme s) s))"
    by (rule init_view)
  then have "local_storage (state_of (init s)) = local_storage (state_of (setTheme (theme s) s))"
    "theme_toggle (state_of (init s)) = theme_toggle (state_of (setTheme (theme s) s))"
    by (simp_all add: theme_view_def)
  then show "storage_ok (local_storage (state_of (init s)))" and "icons_ok (state_of (init s))"
    using setTheme_keeps_ok[OF d] by (simp_all add: icons_ok_def)
qed

lemma constructor_keeps_ok:
  assumes "storage_ok (local_storage s)" "icons_ok s"
  shows "storage_ok (local_storage (state_of (constructor s)))" and "icons_ok (state_of (constructor s))"
proof -
  let ?t = "orDefault (items (local_storage s) ''theme'') ''light''"
  let ?s3 = "s\<lparr>theme := ?t, currentPage := getCurrentPage (s\<lparr>theme := ?t\<rparr>), loadingComplete := False\<rparr>"
  have nd: "\<not> denied (local_storage s)" using assms(1) by (simp add: storage_ok_def)
  have c: "constructor s = init ?s3"
    using nd by (simp add: constructor_def getItem_def Let_def)
  have ok: "storage_ok (local_storage ?s3)" "icons_ok ?s3"
    using assms by (simp_all add: icons_ok_def)
  show "storage_ok (local_storage (state_of (constructor s)))" and "icons_ok (state_of (constructor s))"
    using init_keeps_ok[OF ok] c by simp_all
qed

text \<open>
  C2 (as amended). After a call \<^verbatim>\<open>setTheme(theme)\<close> that returned, for either of the two
  themes, the root attribute, the stored value and the icons agree on that theme:
  \<open>theme_agrees\<close> says that the attribute and the value under the storage key are the theme
  and that, where the toggle button exists, exactly one icon is visible, the one of the
  theme. The body attribute and \<^verbatim>\<open>this.theme\<close> are the theme as well. A toggle that returned
  leaves one of the two themes, with the same agreement. For any other string, the
  attribute, the stored value and \<^verbatim>\<open>this.theme\<close> are that string, and the light icon is the
  visible one.
\<close>

theorem setTheme_consistent:
  "(setTheme th s = Done s' \<and> (th = ''light'' \<or> th = ''dark'') \<longrightarrow>
      theme_agrees th s' \<and> theme s' = th \<and> body_data_theme s' = Some th) \<and>
   (toggleTheme u = Done u' \<longrightarrow>
      (theme u' = ''light'' \<or> theme u' = ''dark'') \<and>
      theme_agrees (theme u') u' \<and> body_data_theme u' = Some (theme u')) \<and>
   (setTheme th s = Done s' \<and> th \<noteq> ''light'' \<and> th \<noteq> ''dark'' \<longrightarrow>
      root_data_theme s' = Some th \<and> stored_theme s' = Some th \<and> theme s' = th \<and>
      (case theme_toggle s' of None \<Rightarrow> True | Some btn \<Rightarrow> visible_icon btn = Some ''light''))"
proof (intro conjI impI)
  assume a: "setTheme th s = Done s' \<and> (th = ''light'' \<or> th = ''dark'')"
  then show "theme_agrees th s'" using setTheme_agrees by blast
  from a show "theme s' = th" using setTheme_Done by blast
  from a show "body_data_theme s' = Some th" using setTheme_Done by blast
next
  assume b: "toggleTheme u = Done u'"
  show "theme u' = ''light'' \<or> theme u' = ''dark''"
    using toggleTheme_result(1)[OF b] by simp
  show "theme_agrees (theme u') u'" using toggleTheme_result(2)[OF b] .
  show "body_data_theme u' = Some (theme u')" using toggleTheme_result(3)[OF b] .
next
  assume c: "setTheme th s = Done s' \<and> th \<noteq> ''light'' \<and> th \<noteq> ''dark''"
  then have d: "setTheme th s = Done s'" and n: "th \<noteq> ''dark''" by simp_all
  from setTheme_other_string[OF d n]
  show "root_data_theme s' = Some th" and "stored_theme s' = Some th"
    and "case theme_toggle s' of None \<Rightarrow> True | Some btn \<Rightarrow> visible_icon btn = Some ''light''"
    by simp_all
  show "theme s' = th" using setTheme_Done[OF d] by simp
qed

theorem setTheme_consistent_witness:
  "theme_agrees ''dark'' (state_of (setTheme ''dark'' home_page)) \<and>
   theme_agrees ''light'' (state_of (toggleTheme (state_of (setTheme ''dark'' home_page)))) \<and>
   root_data_theme (state_of (setTheme ''auto'' home_page)) = Some ''auto'' \<and>
   stored_theme (state_of (setTheme ''auto'' home_page)) = Some ''auto''"
proof -
  let ?s1 = "state_of (setTheme ''dark'' home_page)"
  let ?s3 = "state_of (setTheme ''auto'' home_page)"
  have d1: "setTheme ''dark'' home_page = Done ?s1"
    by (rule completed_Done) (simp add: setTheme_completed home_plain_ok)
  have t1: "theme ?s1 = ''dark''" using setTheme_Done[OF d1] by simp
  have d2: "toggleTheme ?s1 = Done (state_of (toggleTheme ?s1))"
    by (rule completed_Done) (simp add: toggleTheme_completed setTheme_keeps_ok[OF d1])
  have t2: "theme (state_of (toggleTheme ?s1)) = ''light''"
    using toggleTheme_result(1)[OF d2] t1 by simp
  have d3: "setTheme ''auto'' home_page = Done ?s3"
    by (rule completed_Done) (simp add: setTheme_completed home_plain_ok)
  have A: "theme_agrees ''dark'' ?s1 \<and> theme_agrees ''light'' (state_of (toggleTheme ?s1))"
    using setTheme_consistent[of "''dark''" home_page ?s1 ?s1 "state_of (toggleTheme ?s1)"]
      d1 d2 t2 by simp
  have B: "root_data_theme ?s3 = Some ''auto'' \<and> stored_theme ?s3 = Some ''auto''"
    using setTheme_consistent[of "''auto''" home_page ?s3 ?s1 "state_of (toggleTheme ?s1)"]
      d3 by simp
  from A B show ?thesis by simp
qed

text \<open>
  The claim as it was written fails for the call that start-up makes with a corrupt
  preference: after \<^verbatim>\<open>setTheme('blue')\<close> on the home page, the attribute and the stored
  value say \<^verbatim>\<open>blue\<close> and the icons say \<^verbatim>\<open>light\<close>.
\<close>

theorem setTheme_corrupt_counterexample:
  "completed (setTheme ''blue'' home_page) \<and>
   root_data_theme (state_of (setTheme ''blue'' home_page)) = Some ''blue'' \<and>
   stored_theme (state_of (setTheme ''blue'' home_page)) = Some ''blue'' \<and>
   map_option visible_icon (theme_toggle (state_of (setTheme ''blue'' home_page))) = Some (Some ''light'') \<and>
   \<not> theme_agrees ''blue'' (state_of (setTheme ''blue'' home_page))"
proof -
  have c: "completed (setTheme ''blue'' home_page)" by (simp add: setTheme_completed home_plain_ok)
  then have d: "setTheme ''blue'' home_page = Done (state_of (setTheme ''blue'' home_page))"
    by (rule completed_Done)
  have p: "theme_toggle home_page \<noteq> None" by (simp add: home_page_def blank_page_def)
  then have q: "theme_toggle (state_of (setTheme ''blue'' home_page)) \<noteq> None"
    using setTheme_button_presence[OF d] by simp
  from setTheme_other_string[OF d] q c show ?thesis
    by (auto simp: theme_agrees_def split: option.splits)
qed


text \<open>
  C7 (as amended). Two toggles in a row that both return: from either of the two themes
  they lead through the other theme back to the first one, and the state then agrees on
  it; when the starting state agreed on its theme, as it does after start-up, the root
  attribute, the stored value and the button with its icons are the same as before the two
  toggles. From any other theme string they lead to \<^verbatim>\<open>light\<close> and then to \<^verbatim>\<open>dark\<close>.
\<close>

theorem toggle_twice:
  assumes "toggleTheme s = Done s1" and "toggleTheme s1 = Done s2"
  shows "(theme s = ''light'' \<or> theme s = ''dark'' \<longrightarrow>
            theme s1 \<noteq> theme s \<and> theme s2 = theme s \<and> theme_agrees (theme s) s2 \<and>
            (theme_agrees (theme s) s \<longrightarrow>
               root_data_theme s2 = root_data_theme s \<and> stored_theme s2 = stored_theme s \<and>
               theme_toggle s2 = theme_toggle s)) \<and>
         (theme s \<noteq> ''light'' \<and> theme s \<noteq> ''dark'' \<longrightarrow>
            theme s1 = ''light'' \<and> theme s2 = ''dark'')"
proof (intro conjI impI)
  assume th: "theme s = ''light'' \<or> theme s = ''dark''"
  have t1: "theme s1 = (if theme s = ''light'' then ''dark'' else ''light'')"
    using toggleTheme_result(1)[OF assms(1)] .
  have t2: "theme s2 = (if theme s1 = ''light'' then ''dark'' else ''light'')"
    using toggleTheme_result(1)[OF assms(2)] .
  show ret: "theme s2 = theme s" using t1 t2 th by auto
  show ag: "theme_agrees (theme s) s2" using toggleTheme_result(2)[OF assms(2)] ret by simp
  show "theme s1 \<noteq> theme s" using t1 th by auto
  have pres: "(theme_toggle s2 = None) = (theme_toggle s = None)"
    using toggleTheme_button_presence[OF assms(1)] toggleTheme_button_presence[OF assms(2)] by simp
  assume a: "theme_agrees (theme s) s"
  show tb: "theme_toggle s2 = theme_toggle s" using agrees_toggle_button[OF ag a pres] .
  show "root_data_theme s2 = root_data_theme s" using a ag by (simp add: theme_agrees_def)
  show "stored_theme s2 = stored_theme s" using a ag by (simp add: theme_agrees_def)
next
  assume "theme s \<noteq> ''light'' \<and> theme s \<noteq> ''dark''"
  then have "theme s \<noteq> ''light''" by simp
  from toggle_from_other_string[OF this assms]
  show "theme s1 = ''light''" and "theme s2 = ''dark''" by simp_all
qed

theorem toggle_twice_witness:
  "theme (state_of (toggleTheme (state_of (toggleTheme (state_of (setTheme ''light'' home_page)))))) = ''light'' \<and>
   theme_toggle (state_of (toggleTheme (state_of (toggleTheme (state_of (setTheme ''light'' home_page))))))
     = theme_toggle (state_of (setTheme ''light'' home_page)) \<and>
   theme (state_of (toggleTheme (state_of (setTheme ''light'' home_page)))) = ''dark'' \<and>
   theme (state_of (toggleTheme (state_of (toggleTheme (state_of (setTheme ''auto'' home_page)))))) = ''dark''"
proof -
  let ?s = "state_of (setTheme ''light'' home_page)"
  let ?s1 = "state_of (toggleTheme ?s)"
  let ?s2 = "state_of (toggleTheme ?s1)"
  let ?u = "state_of (setTheme ''auto'' home_page)"
  let ?u1 = "state_of (toggleTheme ?u)"
  let ?u2 = "state_of (toggleTheme ?u1)"
  have d: "setTheme ''light'' home_page = Done ?s"
    by (rule completed_Done) (simp add: setTheme_completed home_plain_ok)
  have t: "theme ?s = ''light''" using setTheme_Done[OF d] by simp
  have a: "theme_agrees (theme ?s) ?s" using setTheme_agrees[OF d] t by simp
  have d1: "toggleTheme ?s = Done ?s1"
    by (rule completed_Done) (simp add: toggleTheme_completed setTheme_keeps_ok[OF d])
  have d2: "toggleTheme ?s1 = Done ?s2"
    by (rule completed_Done) (simp add: toggleTheme_completed toggleTheme_keeps_ok[OF d1])
  have t1: "theme ?s1 = ''dark''" using toggleTheme_result(1)[OF d1] t by simp
  have e: "setTheme ''auto'' home_page = Done ?u"
    by (rule completed_Done) (simp add: setTheme_completed home_plain_ok)
  have tu: "theme ?u = ''auto''" using setTheme_Done[OF e] by simp
  have e1: "toggleTheme ?u = Done ?u1"
    by (rule completed_Done) (simp add: toggleTheme_completed setTheme_keeps_ok[OF e])
  have e2: "toggleTheme ?u1 = Done ?u2"
    by (rule completed_Done) (simp add: toggleTheme_completed toggleTheme_keeps_ok[OF e1])
  have A: "theme ?s2 = ''light'' \<and> theme_toggle ?s2 = theme_toggle ?s \<and> theme ?s1 = ''dark''"
    using toggle_twice[OF d1 d2] t a t1 by simp
  have B: "theme ?u2 = ''dark''"
    using toggle_twice[OF e1 e2] tu by simp
  from A B show ?thesis by simp
qed


text \<open>
  The claim as it was written fails from the state that start-up leaves with \<^verbatim>\<open>blue\<close>
  stored: the theme is \<^verbatim>\<open>blue\<close>, both toggles return, and the theme is \<^verbatim>\<open>dark\<close> after them.
\<close>

theorem toggle_twice_corrupt_counterexample:
  "completed (constructor (with_stored ''blue'' home_page)) \<and>
   theme (state_of (constructor (with_stored ''blue'' home_page))) = ''blue'' \<and>
   completed (toggleTheme (state_of (constructor (with_stored ''blue'' home_page)))) \<and>
   completed (toggleTheme (state_of (toggleTheme (state_of (constructor (with_stored ''blue'' home_page)))))) \<and>
   theme (state_of (toggleTheme (state_of (toggleTheme
      (state_of (constructor (with_stored ''blue'' home_page))))))) = ''dark''"
proof -
  let ?s0 = "state_of (constructor (with_stored ''blue'' home_page))"
  let ?s1 = "state_of (toggleTheme ?s0)"
  let ?s2 = "state_of (toggleTheme ?s1)"
  note h = home_ok[of "''blue''"]
  have c: "completed (constructor (with_stored ''blue'' home_page))"
    using constructor_theme(5)[OF h(1,2)] h(3) by simp
  have t0: "theme ?s0 = ''blue''"
    using constructor_theme(1)[OF h(1,2)] h(4) by (simp add: orDefault_def)
  have ok0: "storage_ok (local_storage ?s0)" "icons_ok ?s0"
    using constructor_keeps_ok[OF h(1,2)] by simp_all
  have c1: "completed (toggleTheme ?s0)" using ok0 by (simp add: toggleTheme_completed)
  then have d1: "toggleTheme ?s0 = Done ?s1" by (rule completed_Done)
  have c2: "completed (toggleTheme ?s1)"
    using toggleTheme_keeps_ok[OF d1] by (simp add: toggleTheme_completed)
  then have d2: "toggleTheme ?s1 = Done ?s2" by (rule completed_Done)
  have "theme ?s0 \<noteq> ''light''" using t0 by simp
  from toggle_from_other_string[OF this d1 d2] have "theme ?s2 = ''dark''" by simp
  with c t0 c1 c2 show ?thesis by simp
qed


subsection \<open>Failures of the storage and of the icon lookup\<close>

text \<open>
  C3. Neither the constructor nor \<^verbatim>\<open>setTheme\<close> catches anything. With access to the storage
  denied, the constructor throws at its first line and nothing is initialised; with a
  store that refuses writes, \<^verbatim>\<open>setTheme\<close> throws after it has set the two attributes, and
  \<^verbatim>\<open>this.theme\<close>, the icons and the timer are skipped.
\<close>

theorem storage_failure_propagates:
  "constructor (home_page\<lparr>local_storage := \<lparr>denied = True, full = False, items = Map.empty\<rparr>\<rparr>)
     = Threw SecurityError (home_page\<lparr>local_storage := \<lparr>denied = True, full = False, items = Map.empty\<rparr>\<rparr>) \<and>
   setTheme ''dark'' (home_page\<lparr>local_storage := \<lparr>denied = False, full = True, items = Map.empty\<rparr>\<rparr>)
     = Threw QuotaExceededError
         (home_page\<lparr>local_storage := \<lparr>denied = False, full = True, items = Map.empty\<rparr>,
                     root_data_theme := Some ''dark'', body_data_theme := Some ''dark''\<rparr>)"
  by (simp add: constructor_def setTheme_def getItem_def setItem_def)

text \<open>
  The early theme script does catch the failure of the same read: it cannot throw, and
  with the storage denied it falls back to \<^verbatim>\<open>light\<close> on the root.
\<close>

lemma themeInit_fallback:
  "denied (e_storage d) \<Longrightarrow> e_root_theme (themeInit d) = Some ''light''"
  by (simp add: themeInit_def getItem_def)

lemma themeInit_reads:
  "\<not> denied (e_storage d) \<Longrightarrow>
     e_root_theme (themeInit d) = Some (orDefault (items (e_storage d) ''theme'') ''light'')"
  by (simp add: themeInit_def getItem_def initializeBodyTheme_def Let_def split: option.splits prod.splits)

text \<open>
  C6. With the toggle button in the document but without its icon children,
  \<^verbatim>\<open>updateThemeIcon\<close> passes its only guard and throws on \<^verbatim>\<open>lightIcon.style\<close>.
\<close>

theorem updateThemeIcon_without_icons:
  "updateThemeIcon (home_page\<lparr>theme := ''light'', theme_toggle := Some \<lparr>light_icon = None, dark_icon = None\<rparr>\<rparr>)
     = Threw TypeError (home_page\<lparr>theme := ''light'', theme_toggle := Some \<lparr>light_icon = None, dark_icon = None\<rparr>\<rparr>)"
  by (simp add: updateThemeIcon_def setOpacities_def)

text \<open>Without the button itself the call is the no-op that the guard makes it.\<close>

lemma updateThemeIcon_without_button:
  "theme_toggle s = None \<Longrightarrow> updateThemeIcon s = Done s"
  by (simp add: updateThemeIcon_def)

subsection \<open>The initializers run in sequence\<close>













text \<open>
  The navbar is the one element of the claim's list that is dereferenced without a guard,
  in the scroll listener's animation-frame callback: without a navbar the initializer still
  registers the listener, and the callback throws at every scroll.
\<close>

lemma updateNavbar_without_navbar:
  "navbar s = None \<Longrightarrow> updateNavbar y s = Threw TypeError s"
  by (simp add: updateNavbar_def)


subsection \<open>The loading sequence\<close>

lemma fold_setTimeout:
  "fold (\<lambda>i. setTimeout (f i) d) xs s = s\<lparr>timers := timers s @ map (\<lambda>i. (now s + d, f i)) xs\<rparr>"
proof (induction xs arbitrary: s)
  case Nil
  show ?case by simp
next
  case (Cons x xs)
  show ?case by (simp add: Cons.IH) (simp add: setTimeout_def)
qed

lemma initPostLoad_effects:
  "listeners (initPostLoad s) =
     listeners s @ (if scroll_to_top s then [Scroll_scrollToTop, Click_scrollToTop] else []) @
       map Click_pageTransition [0..<n_html_links s]"
  "observed (initPostLoad s) = observed s @ map Counter [0..<n_stat_numbers s]"
  "timers (initPostLoad s) = timers s @ map (\<lambda>i. (now s + 200, EntranceCard i)) [0..<n_quick_cards s]"
  "loading_screen (initPostLoad s) = loading_screen s"
  "loadingComplete (initPostLoad s) = loadingComplete s"
  by (simp_all add: initPostLoad_def triggerEntranceAnimations_def fold_setTimeout
        initPageTransitions_def initStatCounters_def initScrollToTop_def
        addListener_def addListeners_def)

text \<open>
  C9. With the overlay present, \<^verbatim>\<open>initLoading\<close> registers the load listener with the
  start time. When the load event comes \<open>e\<close> milliseconds after the start, the listener
  schedules the hiding \<open>max 0 (300 - e)\<close> milliseconds ahead, which is no earlier than 300ms
  after the start. The hiding adds the class \<^verbatim>\<open>hidden\<close> to the overlay and schedules the last
  callback 500ms ahead; that callback removes the overlay, sets \<^verbatim>\<open>loadingComplete\<close> and has
  run the post-load initializers when it returns: the scroll-to-top listeners when that
  button exists, the counters under observation, the page-transition listeners, and one
  entrance timer per quick card, 200ms ahead. (A browser runs a timer's callback at its due
  time or later.)
\<close>

theorem loading_sequence:
  "(loading_screen s \<noteq> None \<longrightarrow>
      listeners (initLoading s) = listeners s @ [Load_hideLoading (now s)]) \<and>
   (now s1 = start + e \<longrightarrow>
      timers (runLoad (Load_hideLoading start) s1) = timers s1 @ [(start + e + max 0 (300 - e), HideLoading)] \<and>
      start + 300 \<le> start + e + max 0 (300 - e)) \<and>
   (loading_screen s2 = Some cs \<longrightarrow>
      loading_screen (runTask HideLoading s2) = Some (classAdd ''hidden'' cs) \<and>
      ''hidden'' \<in> set (classAdd ''hidden'' cs)) \<and>
   timers (runTask HideLoading s2) = timers s2 @ [(now s2 + 500, FinishLoading)] \<and>
   loading_screen (runTask FinishLoading s3) = None \<and>
   loadingComplete (runTask FinishLoading s3) \<and>
   listeners (runTask FinishLoading s3) =
     listeners s3 @ (if scroll_to_top s3 then [Scroll_scrollToTop, Click_scrollToTop] else []) @
       map Click_pageTransition [0..<n_html_links s3] \<and>
   observed (runTask FinishLoading s3) = observed s3 @ map Counter [0..<n_stat_numbers s3] \<and>
   timers (runTask FinishLoading s3) =
     timers s3 @ map (\<lambda>i. (now s3 + 200, EntranceCard i)) [0..<n_quick_cards s3]"
proof -
  have a: "loading_screen s \<noteq> None \<longrightarrow>
      listeners (initLoading s) = listeners s @ [Load_hideLoading (now s)]"
    by (auto simp: initLoading_def addListener_def)
  have b: "now s1 = start + e \<longrightarrow>
      timers (runLoad (Load_hideLoading start) s1) = timers s1 @ [(start + e + max 0 (300 - e), HideLoading)] \<and>
      start + 300 \<le> start + e + max 0 (300 - e)"
    by (auto simp: onLoad_hideLoading_def setTimeout_def Let_def)
  have c: "loading_screen s2 = Some cs \<longrightarrow>
      loading_screen (runTask HideLoading s2) = Some (classAdd ''hidden'' cs) \<and>
      ''hidden'' \<in> set (classAdd ''hidden'' cs)"
    by (simp add: hideLoading_def setTimeout_def classAdd_def)
  have d: "timers (runTask HideLoading s2) = timers s2 @ [(now s2 + 500, FinishLoading)]"
    by (simp add: hideLoading_def setTimeout_def)
  have e: "loading_screen (runTask FinishLoading s3) = None" "loadingComplete (runTask FinishLoading s3)"
    by (simp_all add: finishLoading_def initPostLoad_effects)
  have f: "listeners (runTask FinishLoading s3) =
     listeners s3 @ (if scroll_to_top s3 then [Scroll_scrollToTop, Click_scrollToTop] else []) @
       map Click_pageTransition [0..<n_html_links s3]"
    "observed (runTask FinishLoading s3) = observed s3 @ map Counter [0..<n_stat_numbers s3]"
    "timers (runTask FinishLoading s3) =
     timers s3 @ map (\<lambda>i. (now s3 + 200, EntranceCard i)) [0..<n_quick_cards s3]"
    by (simp_all add: finishLoading_def initPostLoad_effects)
  from a b c d e f show ?thesis by blast
qed


theorem loading_sequence_witness:
  "listeners (initLoading home_page) = [Load_hideLoading 0] \<and>
   timers (runLoad (Load_hideLoading 0) (home_page\<lparr>now := 50\<rparr>)) = [(300, HideLoading)] \<and>
   loading_screen (runTask HideLoading (home_page\<lparr>now := 300\<rparr>)) = Some [''hidden''] \<and>
   timers (runTask HideLoading (home_page\<lparr>now := 300\<rparr>)) = [(800, FinishLoading)] \<and>
   loading_screen (runTask FinishLoading (home_page\<lparr>now := 800\<rparr>)) = None \<and>
   timers (runTask FinishLoading (home_page\<lparr>now := 800\<rparr>)) = [(1000, EntranceCard 0), (1000, EntranceCard 1)]"
  using loading_sequence[of home_page "home_page\<lparr>now := 50\<rparr>" 0 50 "home_page\<lparr>now := 300\<rparr>" "[]"
          "home_page\<lparr>now := 800\<rparr>"]
  by (simp add: home_page_def blank_page_def classAdd_def upt_conv_Cons)

subsection \<open>The counter animation\<close>








lemma ease_mono:
  fixes a b :: nat
  assumes "a \<le> b"
  shows "1 - (1 - (of_nat a / 60 :: rat)) ^ 3 \<le> 1 - (1 - of_nat b / 60) ^ 3"
proof -
  have "(of_nat a / 60 :: rat) \<le> of_nat b / 60" using assms by (simp add: divide_right_mono)
  then have "1 - (of_nat b / 60 :: rat) \<le> 1 - of_nat a / 60" by simp
  then have "(1 - (of_nat b / 60 :: rat)) ^ 3 \<le> (1 - of_nat a / 60) ^ 3"
    by (rule power_mono_odd[rotated]) simp
  then show ?thesis by simp
qed

lemma shown_mono:
  assumes "0 \<le> target" "a \<le> b"
  shows "shown target a \<le> shown target b"
  unfolding shown_def
  by (intro floor_mono mult_left_mono ease_mono assms) (use assms in simp)


lemma shown_nonneg:
  assumes "0 \<le> target"
  shows "0 \<le> shown target k"
proof -
  have "shown target 0 = 0" by (simp add: shown_def)
  then show ?thesis using shown_mono[OF assms, of 0 k] by simp
qed




subsection \<open>Scroll progress is clamped\<close>

text \<open>
  C8. Whatever the scroll offset and the heights, the percentage that the scroll listener
  writes as the bar's width lies between 0 and 100, and it is 0 when the scrollable height
  (document height less window height) is not positive. Only the order of the numbers
  matters here, so rounding does not.
\<close>

theorem progress_clamped:
  "0 \<le> progressWidth v \<and> progressWidth v \<le> 100 \<and>
   (docScrollHeight v - innerHeight v \<le> 0 \<longrightarrow> progressWidth v = 0) \<and>
   progress_width (onScroll_progress v s) = progressWidth v"
  by (simp add: progressWidth_def scrollPercent_def onScroll_progress_def Let_def)

theorem progress_clamped_witness:
  "progressWidth \<lparr>pageYOffset = 40, docScrollTop = 40, docScrollHeight = 600, innerHeight = 800\<rparr> = 0 \<and>
   progressWidth \<lparr>pageYOffset = - 50, docScrollTop = - 50, docScrollHeight = 2000, innerHeight = 800\<rparr> = 0 \<and>
   progressWidth \<lparr>pageYOffset = 5000, docScrollTop = 5000, docScrollHeight = 2000, innerHeight = 800\<rparr> = 100 \<and>
   progressWidth \<lparr>pageYOffset = 300, docScrollTop = 300, docScrollHeight = 2000, innerHeight = 800\<rparr> = 25"
proof -
  have "progressWidth \<lparr>pageYOffset = 40, docScrollTop = 40, docScrollHeight = 600, innerHeight = 800\<rparr> = 0"
    using progress_clamped[of "\<lparr>pageYOffset = 40, docScrollTop = 40, docScrollHeight = 600, innerHeight = 800\<rparr>"]
    by simp
  then show ?thesis by (simp add: progressWidth_def scrollPercent_def)
qed

subsection \<open>Form validation\<close>

text \<open>
  C10. After \<^verbatim>\<open>validateField\<close> the container never has both classes \<^verbatim>\<open>valid\<close> and \<^verbatim>\<open>invalid\<close>,
  whatever it had before; the call returns false exactly when it leaves the container
  \<^verbatim>\<open>invalid\<close>; and a field that is not required and whose trimmed value is empty gets
  neither class, with the result true.
\<close>

theorem validateField_classes:
  "\<not> (''valid'' \<in> set (container_classes (snd (validateField f))) \<and>
      ''invalid'' \<in> set (container_classes (snd (validateField f)))) \<and>
   ((\<not> fst (validateField f)) = (''invalid'' \<in> set (container_classes (snd (validateField f))))) \<and>
   (trim (field_value f) = [] \<and> \<not> required f \<longrightarrow>
      fst (validateField f) \<and>
      ''valid'' \<notin> set (container_classes (snd (validateField f))) \<and>
      ''invalid'' \<notin> set (container_classes (snd (validateField f))))"
  by (simp add: validateField_def classAdd_def classRemove_def Let_def)

theorem validateField_classes_witness:
  "fst (validateField \<lparr>field_value = ''  '', required = False, field_type = ''email'',
                        container_classes = [''field'', ''invalid'']\<rparr>) \<and>
   ''invalid'' \<notin> set (container_classes (snd (validateField
       \<lparr>field_value = ''  '', required = False, field_type = ''email'',
        container_classes = [''field'', ''invalid'']\<rparr>)))"
proof -
  have "trim (field_value \<lparr>field_value = ''  '', required = False, field_type = ''email'',
                        container_classes = [''field'', ''invalid'']\<rparr>) = []"
    by (simp add: trim_def isSpace_def)
  then show ?thesis
    using validateField_classes[of "\<lparr>field_value = ''  '', required = False, field_type = ''email'',
                        container_classes = [''field'', ''invalid'']\<rparr>"]
    by simp
qed


end
